theory Spec2Isabelle
  imports Complex_Main
begin

section \<open>rotImage: a shallow embedding of rotImage.cpp\<close>

text \<open>
  The program rotates one image, or every image of a directory, by an angle that is
  given on the command line, estimated from a reference image, or estimated from each
  file. The embedding follows \<^verbatim>\<open>rotImage.cpp\<close> function by function.

  Conventions of the model.
  \<^item> A C++ \<^verbatim>\<open>double\<close> or \<^verbatim>\<open>float\<close> is a \<open>real\<close>: rounding, NaN and the sign of
    zero are not represented, so \<^verbatim>\<open>angle == 0.0\<close> is \<open>angle = 0\<close>.
  \<^item> The image library and the file system are an environment of functions
    (\<open>env\<close>) together with a state that is passed explicitly (\<open>state\<close>): the images
    that \<^verbatim>\<open>cv::imread\<close> can decode, by path, and the trace of library calls and
    console messages in the order they happen.
  \<^item> The functions of OpenCV that compute the geometry of a rotation
    (\<^verbatim>\<open>getRotationMatrix2D\<close>, \<^verbatim>\<open>RotatedRect::boundingRect2f\<close>) are written out
    from their documentation, in exact arithmetic.
  \<^item> A call either returns or reaches undefined behaviour of C++ (\<open>outcome\<close>); the
    state that comes with the latter is the one reached at that point.
  \<^item> The model covers the runs in which no library call throws.
\<close>

subsection \<open>Images, line segments, matrices\<close>

text \<open>A \<^verbatim>\<open>cv::Mat\<close>: its dimensions and an opaque payload.\<close>

datatype image = Mat (cols: nat) (rows: nat) (payload: "nat list")

text \<open>\<^verbatim>\<open>cv::Mat::empty()\<close>: no element.\<close>

definition empty :: "image \<Rightarrow> bool" where
  "empty m = (cols m = 0 \<or> rows m = 0)"

text \<open>A \<^verbatim>\<open>cv::Vec4i\<close> as \<^verbatim>\<open>HoughLinesP\<close> gives it: \<open>(x1, y1, x2, y2)\<close>, that is
  \<^verbatim>\<open>line[0]\<close> to \<^verbatim>\<open>line[3]\<close>. The coordinates are pixel positions, so the
  differences below stay far from the limits of a 32-bit \<^verbatim>\<open>int\<close>.\<close>

type_synonym vec4i = "int \<times> int \<times> int \<times> int"

text \<open>The 2x3 matrix of doubles of an affine transform.\<close>

record mat23 =
  m00 :: real
  m01 :: real
  m02 :: real
  m10 :: real
  m11 :: real
  m12 :: real

text \<open>A \<^verbatim>\<open>cv::Rect2f\<close>.\<close>

record rect2f =
  rx :: real
  ry :: real
  width :: real
  height :: real

subsection \<open>Directory entries\<close>

text \<open>
  What a \<^verbatim>\<open>std::filesystem::directory_iterator\<close> yields for one directory is a list
  of entries. An entry has its file name, whether \<^verbatim>\<open>is_directory()\<close> holds for it,
  the entries of the directory it names (used only when it is one), and the value of
  the \<^verbatim>\<open>std::error_code\<close> that \<^verbatim>\<open>iter.increment(ec)\<close> reports when the cursor leaves
  it (\<open>0\<close>: no error). The tree is finite: a cycle of symbolic links is not
  represented.
\<close>

datatype entry =
  Entry (ename: string) (is_dir: bool) (children: "entry list") (advance_ec: nat)

subsection \<open>Trace, state and environment\<close>

datatype event =
    Imread string                      \<comment> \<open>\<^verbatim>\<open>cv::imread(path)\<close> was called\<close>
  | RotateImage real                   \<comment> \<open>\<^verbatim>\<open>rotateImage(image, angle)\<close> was called\<close>
  | Imwrite string image               \<comment> \<open>\<^verbatim>\<open>cv::imwrite(path, image)\<close> wrote the file\<close>
  | ImwriteFailed string               \<comment> \<open>\<^verbatim>\<open>cv::imwrite(path, image)\<close> returned false\<close>
  | ErrReference string                \<comment> \<open>cerr: Could not open or find the reference image\<close>
  | OutAngle real                      \<comment> \<open>cout: Rotation angle determined from reference image\<close>
  | ErrOpenImage string                \<comment> \<open>cerr: Could not open or find the image\<close>
  | ErrRotating                        \<comment> \<open>cerr: Error rotating the image.\<close>
  | ErrWrite string                    \<comment> \<open>cerr: Failed to write the image to\<close>
  | OutSaved string                    \<comment> \<open>cout: Image rotated successfully and saved to\<close>
  | ErrFailedToProcess string          \<comment> \<open>cerr: Failed to process image\<close>
  | OutProcessed string                \<comment> \<open>cout: Processed\<close>
  | ErrCreateDirectory string          \<comment> \<open>cerr: Failed to create output directory\<close>
  | ErrParsing                         \<comment> \<open>cerr: Error parsing arguments\<close>

text \<open>What a call comes to: it returns a value, or it reaches undefined behaviour,
  after which the program has no defined result (in practice it crashes).\<close>

datatype 'a outcome = Returns 'a | UndefinedBehaviour

text \<open>\<open>files st p\<close> is what \<^verbatim>\<open>cv::imread(p, IMREAD_COLOR)\<close> returns in state \<open>st\<close>: an
  empty matrix when \<open>p\<close> cannot be read or decoded. A successful \<^verbatim>\<open>cv::imwrite\<close>
  stores its image there.\<close>

record state =
  files :: "string \<Rightarrow> image"
  trace :: "event list"

definition emit :: "event \<Rightarrow> state \<Rightarrow> state" where
  "emit e st = st\<lparr>trace := trace st @ [e]\<rparr>"

text \<open>
  The library calls whose results the program only consumes:
  \<^item> \<open>detectLines\<close>: \<^verbatim>\<open>cvtColor\<close>, \<^verbatim>\<open>GaussianBlur\<close>, \<^verbatim>\<open>Canny\<close> and \<^verbatim>\<open>HoughLinesP\<close> in
    sequence, from the source image to the vector of segments;
  \<^item> \<open>warpAffine\<close>: the resampling of a source image under a forward affine map
    into a destination of the size handed over, a \<^verbatim>\<open>cv::Size\<close> of whole pixels;
  \<^item> \<open>imwrite_ok\<close>: whether \<^verbatim>\<open>cv::imwrite\<close> succeeds for a path and an image;
  \<^item> \<open>fs_is_directory\<close>, \<open>fs_exists\<close>, \<open>fs_create_directories\<close>: the
    \<^verbatim>\<open>std::filesystem\<close> functions of these names;
  \<^item> \<open>directory_iterator\<close>: the entries of the directory at a path.
\<close>

record env =
  detectLines :: "image \<Rightarrow> vec4i list"
  warpAffine :: "image \<Rightarrow> mat23 \<Rightarrow> int \<times> int \<Rightarrow> image"
  imwrite_ok :: "string \<Rightarrow> image \<Rightarrow> bool"
  fs_is_directory :: "string \<Rightarrow> bool"
  fs_exists :: "string \<Rightarrow> bool"
  fs_create_directories :: "string \<Rightarrow> bool"
  directory_iterator :: "string \<Rightarrow> entry list"

subsection \<open>Paths\<close>

text \<open>\<^verbatim>\<open>path::filename()\<close>: the part after the last separator.\<close>

definition filename :: "string \<Rightarrow> string" where
  "filename p = rev (takeWhile (\<lambda>c. c \<noteq> CHR ''/'') (rev p))"

text \<open>\<^verbatim>\<open>path::extension()\<close>: from the rightmost period of the file name to its end;
  empty for \<^verbatim>\<open>.\<close> and \<^verbatim>\<open>..\<close>, when there is no period, and when the only period is
  the first character.\<close>

definition extension :: "string \<Rightarrow> string" where
  "extension p =
     (let f = filename p; r = takeWhile (\<lambda>c. c \<noteq> CHR ''.'') (rev f)
      in if f = ''.'' \<or> f = ''..'' then []
         else if length r = length f then []
         else if Suc (length r) = length f then []
         else CHR ''.'' # rev r)"

text \<open>\<^verbatim>\<open>operator/\<close> of two paths, the right one relative.\<close>

definition path_append :: "string \<Rightarrow> string \<Rightarrow> string" where
  "path_append d n =
     (if d = [] then n
      else if last d = CHR ''/'' then d @ n
      else d @ CHR ''/'' # n)"

definition imageExtensions :: "string list" where
  "imageExtensions = [''.jpg'', ''.jpeg'', ''.png'', ''.bmp'', ''.tif'', ''.tiff'']"

definition isImageFile :: "string \<Rightarrow> bool" where
  "isImageFile path = (extension path \<in> set imageExtensions)"

subsection \<open>Angle estimation\<close>

text \<open>The C function \<^verbatim>\<open>atan2(y, x)\<close> on the reals, with values in \<open>(-pi, pi]\<close>.\<close>

definition atan2 :: "real \<Rightarrow> real \<Rightarrow> real" where
  "atan2 y x =
     (if 0 < x then arctan (y / x)
      else if x < 0 \<and> 0 \<le> y then arctan (y / x) + pi
      else if x < 0 then arctan (y / x) - pi
      else if 0 < y then pi / 2
      else if y < 0 then - (pi / 2)
      else 0)"

text \<open>One pass of the loop of \<^verbatim>\<open>determineRotationAngle\<close> over \<open>lines\<close>: the pair is
  \<^verbatim>\<open>(angle, count)\<close>.\<close>

fun accumulate :: "vec4i list \<Rightarrow> real \<times> int \<Rightarrow> real \<times> int" where
  "accumulate [] (angle, count) = (angle, count)"
| "accumulate ((l0, l1, l2, l3) # lines) (angle, count) =
     (let theta = atan2 (real_of_int (l3 - l1)) (real_of_int (l2 - l0))
      in accumulate lines (angle + theta, count + 1))"

definition determineRotationAngle :: "env \<Rightarrow> image \<Rightarrow> real" where
  "determineRotationAngle E src =
     (let lines = detectLines E src;
          (angle, count) = accumulate lines (0, 0);
          angle = (if count > 0 then angle / real_of_int count else angle)
      in angle * (180 / pi))"

text \<open>\<^verbatim>\<open>calculateReferenceAngle\<close> returns the angle and, through its reference
  parameter, \<^verbatim>\<open>successful\<close>.\<close>

definition calculateReferenceAngle ::
  "env \<Rightarrow> string \<Rightarrow> bool \<Rightarrow> state \<Rightarrow> real \<times> bool \<times> state" where
  "calculateReferenceAngle E referenceImagePath verbose st =
     (let referenceImage = files st referenceImagePath;
          st = emit (Imread referenceImagePath) st
      in if empty referenceImage
         then (0, False, emit (ErrReference referenceImagePath) st)
         else
           (let angle = determineRotationAngle E referenceImage;
                st = (if verbose then emit (OutAngle angle) st else st)
            in (angle, True, st)))"

subsection \<open>Rotation\<close>

text \<open>\<^verbatim>\<open>cv::getRotationMatrix2D(center, angle, scale)\<close>, as OpenCV documents it: with
  \<open>a = scale * cos angle\<close> and \<open>b = scale * sin angle\<close> (the angle in degrees), the
  matrix \<open>[a, b, (1 - a) * cx - b * cy; -b, a, b * cx + (1 - a) * cy]\<close>.\<close>

definition getRotationMatrix2D :: "real \<times> real \<Rightarrow> real \<Rightarrow> real \<Rightarrow> mat23" where
  "getRotationMatrix2D center angle scale =
     (let a = scale * cos (angle * pi / 180);
          b = scale * sin (angle * pi / 180)
      in \<lparr>m00 = a, m01 = b, m02 = (1 - a) * fst center - b * snd center,
          m10 = - b, m11 = a, m12 = b * fst center + (1 - a) * snd center\<rparr>)"

text \<open>\<^verbatim>\<open>cv::RotatedRect(center, size, angle).points\<close>: the four corners of the
  rectangle of that size, centred at \<open>center\<close> and rotated by \<open>angle\<close> degrees.\<close>

definition rotatedRect_points ::
  "real \<times> real \<Rightarrow> real \<times> real \<Rightarrow> real \<Rightarrow> (real \<times> real) list" where
  "rotatedRect_points center sz angle =
     (let b = cos (angle * pi / 180) * 0.5;
          a = sin (angle * pi / 180) * 0.5;
          p0 = (fst center - a * snd sz - b * fst sz, snd center + b * snd sz - a * fst sz);
          p1 = (fst center + a * snd sz - b * fst sz, snd center - b * snd sz - a * fst sz);
          p2 = (2 * fst center - fst p0, 2 * snd center - snd p0);
          p3 = (2 * fst center - fst p1, 2 * snd center - snd p1)
      in [p0, p1, p2, p3])"

definition min4 :: "real list \<Rightarrow> real" where
  "min4 v = min (min (min (v ! 0) (v ! 1)) (v ! 2)) (v ! 3)"

definition max4 :: "real list \<Rightarrow> real" where
  "max4 v = max (max (max (v ! 0) (v ! 1)) (v ! 2)) (v ! 3)"

text \<open>\<^verbatim>\<open>RotatedRect::boundingRect2f\<close>: the rectangle spanned by the least and the
  greatest coordinates of the four corners.\<close>

definition boundingRect2f :: "real \<times> real \<Rightarrow> real \<times> real \<Rightarrow> real \<Rightarrow> rect2f" where
  "boundingRect2f center sz angle =
     (let pt = rotatedRect_points center sz angle;
          xs = map fst pt; ys = map snd pt
      in \<lparr>rx = min4 xs, ry = min4 ys,
          width = max4 xs - min4 xs, height = max4 ys - min4 ys\<rparr>)"

text \<open>\<^verbatim>\<open>cvRound\<close>: the nearest integer, the even one of the two when the value lies
  half way. \<^verbatim>\<open>saturate_cast<int>\<close> of a \<^verbatim>\<open>float\<close> is this function (the values here
  are far from the limits of \<^verbatim>\<open>int\<close>).\<close>

definition cvRound :: "real \<Rightarrow> int" where
  "cvRound x =
     (let f = \<lfloor>x\<rfloor>
      in if x - of_int f < 1 / 2 then f
         else if 1 / 2 < x - of_int f then f + 1
         else if even f then f else f + 1)"

text \<open>The local \<^verbatim>\<open>bbox\<close> of \<^verbatim>\<open>rotateImage\<close>: the bounding rectangle of the source size
  rotated about the origin.\<close>

definition rotateImage_bbox :: "image \<Rightarrow> real \<Rightarrow> rect2f" where
  "rotateImage_bbox src angle =
     boundingRect2f (0, 0) (real (cols src), real (rows src)) angle"

text \<open>The matrix that \<^verbatim>\<open>rotateImage\<close> hands to \<^verbatim>\<open>cv::warpAffine\<close>: the rotation about
  the centre of the source, its translation column moved by half the difference
  between the bounding box and the source.\<close>

definition rotateImage_rot :: "image \<Rightarrow> real \<Rightarrow> mat23" where
  "rotateImage_rot src angle =
     (let center = (real (cols src) / 2, real (rows src) / 2);
          rot = getRotationMatrix2D center angle 1;
          bbox = rotateImage_bbox src angle
      in rot\<lparr>m02 := m02 rot + (width bbox / 2 - real (cols src) / 2),
             m12 := m12 rot + (height bbox / 2 - real (rows src) / 2)\<rparr>)"

text \<open>The destination size that \<^verbatim>\<open>rotateImage\<close> hands over: \<^verbatim>\<open>bbox.size()\<close> is a
  \<^verbatim>\<open>Size2f\<close> and the parameter of \<^verbatim>\<open>cv::warpAffine\<close> a \<^verbatim>\<open>cv::Size\<close> of integers, so
  each side goes through \<^verbatim>\<open>saturate_cast<int>\<close>.\<close>

definition rotateImage_dsize :: "image \<Rightarrow> real \<Rightarrow> int \<times> int" where
  "rotateImage_dsize src angle =
     (let bbox = rotateImage_bbox src angle
      in (cvRound (width bbox), cvRound (height bbox)))"

definition rotateImage :: "env \<Rightarrow> image \<Rightarrow> real \<Rightarrow> image" where
  "rotateImage E src angle =
     warpAffine E src (rotateImage_rot src angle) (rotateImage_dsize src angle)"


subsection \<open>Processing one file\<close>

definition processSingleImage ::
  "env \<Rightarrow> string \<Rightarrow> string \<Rightarrow> real \<Rightarrow> bool \<Rightarrow> state \<Rightarrow> bool \<times> state" where
  "processSingleImage E inputFile outputFile angle verbose st =
     (if angle = 0 then (False, st)
      else
        (let image = files st inputFile;
             st = emit (Imread inputFile) st
         in if empty image then (False, emit (ErrOpenImage inputFile) st)
            else
              (let rotatedImage = rotateImage E image angle;
                   st = emit (RotateImage angle) st
               in if empty rotatedImage then (False, emit ErrRotating st)
                  else if \<not> imwrite_ok E outputFile rotatedImage
                  then (False, emit (ErrWrite outputFile) (emit (ImwriteFailed outputFile) st))
                  else
                    (let st = emit (Imwrite outputFile rotatedImage)
                                (st\<lparr>files := (files st)(outputFile := rotatedImage)\<rparr>);
                         st = (if verbose then emit (OutSaved outputFile) st else st)
                     in (True, st)))))"

subsection \<open>Processing a directory\<close>

text \<open>Lines 168 to 177 of \<^verbatim>\<open>processDirectory\<close>: when the global
  \<^verbatim>\<open>referenceImagePath\<close> is empty, the angle is estimated from the entry itself and
  replaces the current one when the entry could be decoded.\<close>

definition perFileAngle ::
  "env \<Rightarrow> string \<Rightarrow> string \<Rightarrow> real \<Rightarrow> bool \<Rightarrow> state \<Rightarrow> real \<times> state" where
  "perFileAngle E referenceImagePath path angle verbose st =
     (if referenceImagePath = []
      then (let (t_angle, successful, st) = calculateReferenceAngle E path verbose st
            in (if successful then t_angle else angle, st))
      else (angle, st))"

text \<open>Lines 164 to 187, the block under \<^verbatim>\<open>if (isImageFile(entry.path()))\<close>, for
  the entry at \<open>path\<close>. The first component of the result is \<open>False\<close> when the block
  leaves the function with \<^verbatim>\<open>return false\<close>; the second is the local \<^verbatim>\<open>angle\<close>
  after the block.\<close>

definition processImageEntry ::
  "env \<Rightarrow> string \<Rightarrow> string \<Rightarrow> string \<Rightarrow> real \<Rightarrow> bool \<Rightarrow> state \<Rightarrow> bool \<times> real \<times> state" where
  "processImageEntry E referenceImagePath path outputDir angle verbose st =
     (let outputFilePath = path_append outputDir (filename path);
          (angle, st) = perFileAngle E referenceImagePath path angle verbose st;
          (ok, st) = processSingleImage E path outputFilePath angle verbose st
      in if \<not> ok then (False, angle, emit (ErrFailedToProcess path) st)
         else (True, angle, if verbose then emit (OutProcessed path) st else st))"

text \<open>
  The \<^verbatim>\<open>while (iter != end)\<close> loop of \<^verbatim>\<open>processDirectory\<close>, from the cursor position
  whose remaining entries are the list. The parameter \<open>referenceImagePath\<close> is the
  global of that name, \<open>angle\<close> the local that the loop overwrites.

  The recursive call of line 189 is a statement: its value is dropped, and the loop
  goes on from the state it leaves. When it does not return, neither does the caller.

  The cursor: \<^verbatim>\<open>iter.increment(ec)\<close> is the overload that does not throw. An iterator
  that reports an error becomes equal to the end iterator (C++17,
  [fs.class.directory_iterator] paragraph 3). With \<^verbatim>\<open>verbose\<close> set, line 194 then
  evaluates \<^verbatim>\<open>iter->path()\<close> on that end iterator, which is undefined behaviour;
  without it, the loop condition fails and the function returns true.
\<close>

fun processDirectory_iter ::
  "env \<Rightarrow> string \<Rightarrow> string \<Rightarrow> string \<Rightarrow> real \<Rightarrow> bool \<Rightarrow> bool \<Rightarrow> entry list \<Rightarrow> state
     \<Rightarrow> bool outcome \<times> state" where
  "processDirectory_iter E referenceImagePath inputDir outputDir angle recursive verbose [] st =
     (Returns True, st)"
| "processDirectory_iter E referenceImagePath inputDir outputDir angle recursive verbose
     (Entry n d ch ec # rest) st =
     (let path = path_append inputDir n;
          (continue, angle, st) =
            (if isImageFile path
             then processImageEntry E referenceImagePath path outputDir angle verbose st
             else (True, angle, st))
      in if \<not> continue then (Returns False, st)
         else
           (case (if recursive \<and> d
                  then processDirectory_iter E referenceImagePath path outputDir
                         angle True verbose ch st
                  else (Returns True, st)) of
              (UndefinedBehaviour, st) \<Rightarrow> (UndefinedBehaviour, st)
            | (Returns dropped, st) \<Rightarrow>
                if ec \<noteq> 0
                then (if verbose then (UndefinedBehaviour, st) else (Returns True, st))
                else processDirectory_iter E referenceImagePath inputDir outputDir
                       angle recursive verbose rest st))"

definition processDirectory ::
  "env \<Rightarrow> string \<Rightarrow> string \<Rightarrow> string \<Rightarrow> real \<Rightarrow> bool \<Rightarrow> bool \<Rightarrow> state
     \<Rightarrow> bool outcome \<times> state" where
  "processDirectory E referenceImagePath inputDir outputDir angle recursive verbose st =
     processDirectory_iter E referenceImagePath inputDir outputDir angle recursive verbose
       (directory_iterator E inputDir) st"

subsection \<open>The entry point\<close>

text \<open>The command line after \<^verbatim>\<open>program.parse_args\<close>: \<open>arg_reference\<close> is \<open>None\<close>
  when \<^verbatim>\<open>--reference\<close> is not used, \<open>arg_angle\<close> is \<open>0\<close> when \<^verbatim>\<open>--angle\<close> is not.\<close>

record arguments =
  arg_input :: string
  arg_output :: string
  arg_angle :: real
  arg_recursive :: bool
  arg_verbose :: bool
  arg_detect :: bool
  arg_reference :: "string option"

text \<open>\<^verbatim>\<open>main\<close> returns an \<^verbatim>\<open>int\<close>; \<^verbatim>\<open>return processDirectory(...)\<close> and
  \<^verbatim>\<open>return processSingleImage(...)\<close> convert a \<^verbatim>\<open>bool\<close> to it, \<^verbatim>\<open>true\<close> to 1. A
  traversal that does not return leaves \<^verbatim>\<open>main\<close> without a return value as well.\<close>

definition int_of_bool :: "bool \<Rightarrow> int" where
  "int_of_bool b = (if b then 1 else 0)"

text \<open>\<open>None\<close> for the arguments: \<^verbatim>\<open>parse_args\<close> threw.\<close>

fun main :: "env \<Rightarrow> arguments option \<Rightarrow> state \<Rightarrow> int outcome \<times> state" where
  "main E None st = (Returns 1, emit ErrParsing st)"
| "main E (Some program) st =
     (let inputPath = arg_input program;
          outputPath = arg_output program;
          angle = arg_angle program;
          recursive = arg_recursive program;
          verbose = arg_verbose program;
          referenceImagePath = (case arg_reference program of Some r \<Rightarrow> r | None \<Rightarrow> []);
          (angle, st) =
            (if referenceImagePath \<noteq> []
             then (let (t_angle, successful, st) =
                         calculateReferenceAngle E referenceImagePath verbose st
                   in (if successful then t_angle else angle, st))
             else (angle, st))
      in if fs_is_directory E inputPath
         then
           (if \<not> fs_exists E outputPath \<and> \<not> fs_create_directories E outputPath
            then (Returns 1, emit (ErrCreateDirectory outputPath) st)
            else
              (let (ok, st) = processDirectory E referenceImagePath inputPath outputPath
                                angle recursive verbose st
               in (map_outcome int_of_bool ok, st)))
         else
           (if angle = 0 \<and> referenceImagePath = []
            then
              (let (angle, successful, st) = calculateReferenceAngle E inputPath verbose st
               in if \<not> successful then (Returns 1, st)
                  else
                    (let (ok, st) = processSingleImage E inputPath outputPath angle verbose st
                     in (Returns (int_of_bool ok), st)))
            else
              (let (ok, st) = processSingleImage E inputPath outputPath angle verbose st
               in (Returns (int_of_bool ok), st))))"

subsection \<open>Notions used in the statements\<close>

text \<open>The orientation of a detected segment: \<open>atan2 dy dx\<close> of its two end points,
  in radians.\<close>

definition orientation :: "vec4i \<Rightarrow> real" where
  "orientation l =
     (case l of (x1, y1, x2, y2) \<Rightarrow> atan2 (real_of_int (y2 - y1)) (real_of_int (x2 - x1)))"

text \<open>The angles of the calls of \<^verbatim>\<open>rotateImage\<close> in a trace, in order.\<close>

fun rotations :: "event list \<Rightarrow> real list" where
  "rotations [] = []"
| "rotations (RotateImage a # es) = a # rotations es"
| "rotations (e # es) = rotations es"

subsection \<open>A concrete environment\<close>

text \<open>
  A small world on which the functions are run: every readable image is
  \<open>example_image\<close>, in which the line detector finds the one segment from \<open>(0, 0)\<close> to
  \<open>(1, 1)\<close>; resampling gives a 5x5 image; every write succeeds; \<^verbatim>\<open>in\<close> is a
  directory with the listing given, and \<^verbatim>\<open>out\<close> exists.
\<close>

definition example_image :: image where
  "example_image = Mat 4 2 [1]"

definition example_env :: "entry list \<Rightarrow> env" where
  "example_env listing =
     \<lparr>detectLines = (\<lambda>src. if payload src = [1] then [(0, 0, 1, 1)] else []),
      warpAffine = (\<lambda>src M dsize. Mat 5 5 (payload src)),
      imwrite_ok = (\<lambda>path image. True),
      fs_is_directory = (\<lambda>path. path = ''in''),
      fs_exists = (\<lambda>path. path = ''out''),
      fs_create_directories = (\<lambda>path. False),
      directory_iterator = (\<lambda>path. if path = ''in'' then listing else [])\<rparr>"

definition example_state :: state where
  "example_state =
     \<lparr>files = (\<lambda>path. if path \<in> {''in.png'', ''in/a.png'', ''in/b.png''}
                       then example_image else Mat 0 0 []),
      trace = []\<rparr>"

text \<open>\<^verbatim>\<open>rotImage -i in.png -o out.png -a 90\<close>\<close>

definition example_arguments :: arguments where
  "example_arguments =
     \<lparr>arg_input = ''in.png'', arg_output = ''out.png'', arg_angle = 90,
      arg_recursive = False, arg_verbose = False, arg_detect = False,
      arg_reference = None\<rparr>"

section \<open>Properties\<close>

subsection \<open>Auxiliary facts\<close>

lemmas model_defs =
  main.simps processDirectory_iter.simps(2) processDirectory_def processImageEntry_def
  perFileAngle_def calculateReferenceAngle_def determineRotationAngle_def processSingleImage_def rotateImage_def emit_def empty_def
  path_append_def filename_def extension_def isImageFile_def imageExtensions_def
  int_of_bool_def atan2_def arctan_one Let_def

lemmas example_defs =
  example_image_def example_env_def example_state_def example_arguments_def

lemma trace_emit: "trace (emit e st) = trace st @ [e]"
  by (simp add: emit_def)

lemma files_emit: "files (emit e st) = files st"
  by (simp add: emit_def)

lemma accumulate_sum:
  "accumulate lines (angle, count) =
     (angle + sum_list (map orientation lines), count + int (length lines))"
  by (induction lines arbitrary: angle count) (auto simp: orientation_def Let_def)

lemma processSingleImage_zero: "processSingleImage E i out 0 v st = (False, st)"
  by (simp add: processSingleImage_def)

lemma processSingleImage_trace:
  "angle \<noteq> 0 \<Longrightarrow>
     \<exists>tr. trace (snd (processSingleImage E i out angle v st)) = trace st @ Imread i # tr"
  by (simp add: processSingleImage_def Let_def trace_emit)

lemma processSingleImage_ok:
  assumes "angle \<noteq> 0" "\<not> empty (files st i)"
    "\<not> empty (rotateImage E (files st i) angle)"
    "imwrite_ok E out (rotateImage E (files st i) angle)"
  shows "fst (processSingleImage E i out angle v st)"
    and "files (snd (processSingleImage E i out angle v st)) out = rotateImage E (files st i) angle"
    and "Imwrite out (rotateImage E (files st i) angle)
           \<in> set (trace (snd (processSingleImage E i out angle v st)))"
  using assms by (simp_all add: processSingleImage_def Let_def trace_emit files_emit)

lemma calculateReferenceAngle_undecodable:
  "empty (files st p) \<Longrightarrow>
   calculateReferenceAngle E p v st = (0, False, emit (ErrReference p) (emit (Imread p) st))"
  by (simp add: calculateReferenceAngle_def Let_def files_emit)

text \<open>One turn of the loop, with the block for an image entry as one step.\<close>

lemma iter_Cons:
  "processDirectory_iter E ref inDir outDir angle r v (Entry n d ch ec # rest) st =
     (case (if isImageFile (path_append inDir n)
            then processImageEntry E ref (path_append inDir n) outDir angle v st
            else (True, angle, st)) of
        (c, a1, s1) \<Rightarrow>
          if \<not> c then (Returns False, s1)
          else
            (case (if r \<and> d
                   then processDirectory_iter E ref (path_append inDir n) outDir a1 True v ch s1
                   else (Returns True, s1)) of
               (UndefinedBehaviour, s2) \<Rightarrow> (UndefinedBehaviour, s2)
             | (Returns b, s2) \<Rightarrow>
                 if ec \<noteq> 0 then (if v then UndefinedBehaviour else Returns True, s2)
                 else processDirectory_iter E ref inDir outDir a1 r v rest s2))"
  by (simp add: Let_def split: prod.splits outcome.splits)

declare processDirectory_iter.simps(2) [simp del]

declare main.simps [simp del]

lemma iter_failure_final:
  "processDirectory_iter E ref inDir outDir angle r v xs st = (Returns False, s')
   \<Longrightarrow> processDirectory_iter E ref inDir outDir angle r v (xs @ ys) st = (Returns False, s')"
proof (induction xs arbitrary: angle st)
  case Nil
  then show ?case by simp
next
  case (Cons x xs)
  obtain n d ch ec where x: "x = Entry n d ch ec" by (cases x)
  obtain c a1 s1 where step:
    "(if isImageFile (path_append inDir n)
      then processImageEntry E ref (path_append inDir n) outDir angle v st
      else (True, angle, st)) = (c, a1, s1)"
    by (metis prod_cases3)
  obtain o2 s2 where sub:
    "(if r \<and> d
      then processDirectory_iter E ref (path_append inDir n) outDir a1 True v ch s1
      else (Returns True, s1)) = (o2, s2)"
    by (metis surj_pair)
  from Cons.prems Cons.IH [of a1 s2] show ?case
    unfolding x append_Cons iter_Cons step prod.case sub
    by (cases o2) (auto split: if_splits)
qed




lemma iter_file_failure:
  assumes "isImageFile (path_append inDir n)"
    and "perFileAngle E ref (path_append inDir n) angle v st = (a1, s1)"
    and "\<not> fst (processSingleImage E (path_append inDir n)
                 (path_append outDir (filename (path_append inDir n))) a1 v s1)"
  shows "processDirectory_iter E ref inDir outDir angle r v (Entry n d ch ec # rest) st =
           (Returns False, emit (ErrFailedToProcess (path_append inDir n))
                     (snd (processSingleImage E (path_append inDir n)
                            (path_append outDir (filename (path_append inDir n))) a1 v s1)))"
proof -
  obtain ok s2 where p:
    "processSingleImage E (path_append inDir n)
       (path_append outDir (filename (path_append inDir n))) a1 v s1 = (ok, s2)"
    by (metis surj_pair)
  with assms(3) have "\<not> ok" by simp
  then have "processImageEntry E ref (path_append inDir n) outDir angle v st
               = (False, a1, emit (ErrFailedToProcess (path_append inDir n)) s2)"
    by (simp add: processImageEntry_def Let_def assms(2) p)
  with assms(1) p show ?thesis by (simp add: iter_Cons)
qed

lemma rotations_append: "rotations (xs @ ys) = rotations xs @ rotations ys"
  by (induction xs rule: rotations.induct) simp_all

lemma rotations_processSingleImage:
  "set (rotations (trace (snd (processSingleImage E i out a v st))))
     \<subseteq> insert a (set (rotations (trace st)))"
  by (auto simp: processSingleImage_def Let_def trace_emit rotations_append)

lemma rotations_calculateReferenceAngle:
  "rotations (trace (snd (snd (calculateReferenceAngle E p v st)))) = rotations (trace st)"
  by (simp add: calculateReferenceAngle_def Let_def trace_emit rotations_append)

lemma perFileAngle_reference: "ref \<noteq> [] \<Longrightarrow> perFileAngle E ref p a v st = (a, st)"
  by (simp add: perFileAngle_def)

lemma rotations_processImageEntry:
  assumes "ref \<noteq> []" "processImageEntry E ref p outDir angle v st = (c, a1, s1)"
  shows "a1 = angle" "set (rotations (trace s1)) \<subseteq> insert angle (set (rotations (trace st)))"
  using assms rotations_processSingleImage [of E p "path_append outDir (filename p)" angle v st]
  by (auto simp: processImageEntry_def perFileAngle_reference Let_def trace_emit rotations_append
      split: prod.splits if_splits)

lemma rotations_iter:
  "ref \<noteq> [] \<Longrightarrow>
   set (rotations (trace (snd (processDirectory_iter E ref inDir outDir angle r v xs st))))
     \<subseteq> insert angle (set (rotations (trace st)))"
proof (induction xs arbitrary: inDir r st rule: measure_induct_rule [where f = "size_list size"])
  case (less xs)
  show ?case
  proof (cases xs)
    case Nil
    then show ?thesis by auto
  next
    case (Cons x rest)
    obtain n d ch ec where x: "x = Entry n d ch ec" by (cases x)
    obtain c a1 s1 where step:
      "(if isImageFile (path_append inDir n)
        then processImageEntry E ref (path_append inDir n) outDir angle v st
        else (True, angle, st)) = (c, a1, s1)"
      by (metis prod_cases3)
    have a1: "a1 = angle"
      and s1: "set (rotations (trace s1)) \<subseteq> insert angle (set (rotations (trace st)))"
      using step rotations_processImageEntry [OF less.prems]
      by (auto split: if_splits)
    obtain o2 s2 where sub:
      "(if r \<and> d
        then processDirectory_iter E ref (path_append inDir n) outDir angle True v ch s1
        else (Returns True, s1)) = (o2, s2)"
      by (metis surj_pair)
    have "set (rotations (trace s2)) \<subseteq> insert angle (set (rotations (trace s1)))"
    proof (cases "r \<and> d")
      case True
      with sub have "s2 = snd (processDirectory_iter E ref (path_append inDir n) outDir
                                 angle True v ch s1)"
        by simp
      then show ?thesis
        using less.IH [of ch "path_append inDir n" True s1] less.prems
        by (simp add: Cons x)
    next
      case False
      with sub show ?thesis by auto
    qed
    with s1 have s2: "set (rotations (trace s2)) \<subseteq> insert angle (set (rotations (trace st)))"
      by blast
    have rst: "set (rotations (trace (snd (processDirectory_iter E ref inDir outDir angle r v rest s2))))
                 \<subseteq> insert angle (set (rotations (trace s2)))"
      using less.IH [of rest inDir r s2] less.prems by (simp add: Cons x)
    have res: "processDirectory_iter E ref inDir outDir angle r v (Entry n d ch ec # rest) st =
        (if \<not> c then (Returns False, s1)
         else (case o2 of
                 UndefinedBehaviour \<Rightarrow> (UndefinedBehaviour, s2)
               | Returns b \<Rightarrow>
                   if ec \<noteq> 0 then (if v then UndefinedBehaviour else Returns True, s2)
                   else processDirectory_iter E ref inDir outDir angle r v rest s2))"
      unfolding iter_Cons step prod.case a1 sub by (simp split: outcome.splits)
    show ?thesis
      unfolding Cons x res
      using s1 s2 rst by (auto split: outcome.splits)
  qed
qed

subsection \<open>Geometry of the rotation\<close>





















subsection \<open>Exit status\<close>

text \<open>
  C1. The exit status is meant to be 0 on success and 1 on failure. The code returns
  the \<^verbatim>\<open>bool\<close> of \<^verbatim>\<open>processSingleImage\<close> and of \<^verbatim>\<open>processDirectory\<close> as the \<^verbatim>\<open>int\<close>
  of \<^verbatim>\<open>main\<close>: rotating the readable \<^verbatim>\<open>in.png\<close> by 90 degrees writes \<^verbatim>\<open>out.png\<close> and
  exits with 1, and the same command on a file that cannot be read writes nothing and
  exits with 0.
\<close>

theorem main_exit_status_of_bool:
  "fst (main (example_env []) (Some example_arguments) example_state) = Returns 1
   \<and> trace (snd (main (example_env []) (Some example_arguments) example_state))
       = [Imread ''in.png'', RotateImage 90, Imwrite ''out.png'' (Mat 5 5 [1])]
   \<and> fst (main (example_env [])
            (Some (example_arguments\<lparr>arg_input := ''missing.png''\<rparr>)) example_state) = Returns 0
   \<and> trace (snd (main (example_env [])
            (Some (example_arguments\<lparr>arg_input := ''missing.png''\<rparr>)) example_state))
       = [Imread ''missing.png'', ErrOpenImage ''missing.png'']"
  by (simp add: model_defs example_defs)

subsection \<open>A reference image that cannot be decoded\<close>

text \<open>
  C2, as the claim states it, fails: with \<^verbatim>\<open>--reference ref.png\<close> where \<^verbatim>\<open>ref.png\<close>
  cannot be decoded and \<^verbatim>\<open>-a 90\<close>, the input file is read, rotated by the explicit
  90 degrees and written.
\<close>

theorem reference_undecodable_counterexample:
  "trace (snd (main (example_env [])
           (Some (example_arguments\<lparr>arg_reference := Some ''ref.png''\<rparr>)) example_state))
   = [Imread ''ref.png'', ErrReference ''ref.png'',
      Imread ''in.png'', RotateImage 90, Imwrite ''out.png'' (Mat 5 5 [1])]"
  by (simp add: model_defs example_defs)

text \<open>
  C2, amended. When a reference image path is supplied and the reference image
  cannot be decoded, the error is printed and the run goes on with the explicit angle
  argument: \<^verbatim>\<open>main\<close> behaves as the single-file or the directory path started with
  that angle, and every rotation of the run is by that angle (estimation from the
  processed files does not run, since the reference path is not empty).
\<close>

theorem main_reference_undecodable:
  assumes "arg_reference program = Some r" and "r \<noteq> []" and "empty (files st r)"
  shows "main E (Some program) st =
           (if fs_is_directory E (arg_input program)
            then
              (if \<not> fs_exists E (arg_output program)
                  \<and> \<not> fs_create_directories E (arg_output program)
               then (Returns 1, emit (ErrCreateDirectory (arg_output program))
                          (emit (ErrReference r) (emit (Imread r) st)))
               else
                 (map_outcome int_of_bool (fst (processDirectory E r (arg_input program)
                     (arg_output program) (arg_angle program) (arg_recursive program)
                     (arg_verbose program) (emit (ErrReference r) (emit (Imread r) st)))),
                  snd (processDirectory E r (arg_input program)
                     (arg_output program) (arg_angle program) (arg_recursive program)
                     (arg_verbose program) (emit (ErrReference r) (emit (Imread r) st)))))
            else
              (Returns (int_of_bool (fst (processSingleImage E (arg_input program)
                  (arg_output program) (arg_angle program) (arg_verbose program)
                  (emit (ErrReference r) (emit (Imread r) st))))),
               snd (processSingleImage E (arg_input program)
                  (arg_output program) (arg_angle program) (arg_verbose program)
                  (emit (ErrReference r) (emit (Imread r) st)))))
         \<and> set (rotations (trace (snd (main E (Some program) st))))
             \<subseteq> insert (arg_angle program) (set (rotations (trace st)))"
proof -
  let ?st = "emit (ErrReference r) (emit (Imread r) st)"
  let ?rhs = "(if fs_is_directory E (arg_input program)
            then
              (if \<not> fs_exists E (arg_output program)
                  \<and> \<not> fs_create_directories E (arg_output program)
               then (Returns 1, emit (ErrCreateDirectory (arg_output program)) ?st)
               else
                 (map_outcome int_of_bool (fst (processDirectory E r (arg_input program)
                     (arg_output program) (arg_angle program) (arg_recursive program)
                     (arg_verbose program) ?st)),
                  snd (processDirectory E r (arg_input program)
                     (arg_output program) (arg_angle program) (arg_recursive program)
                     (arg_verbose program) ?st)))
            else
              (Returns (int_of_bool (fst (processSingleImage E (arg_input program)
                  (arg_output program) (arg_angle program) (arg_verbose program) ?st))),
               snd (processSingleImage E (arg_input program)
                  (arg_output program) (arg_angle program) (arg_verbose program) ?st)))"
  have eq: "main E (Some program) st = ?rhs"
    using assms
    by (simp add: main.simps calculateReferenceAngle_undecodable Let_def split: prod.splits)
  have st: "rotations (trace ?st) = rotations (trace st)"
    by (simp add: trace_emit rotations_append)
  have dir: "set (rotations (trace (snd (processDirectory E r (arg_input program)
                     (arg_output program) (arg_angle program) (arg_recursive program)
                     (arg_verbose program) ?st))))
               \<subseteq> insert (arg_angle program) (set (rotations (trace st)))"
    unfolding processDirectory_def using rotations_iter [OF assms(2), of E _ _ _ _ _ _ ?st]
    by (simp only: st)
  have single: "set (rotations (trace (snd (processSingleImage E (arg_input program)
                  (arg_output program) (arg_angle program) (arg_verbose program) ?st))))
               \<subseteq> insert (arg_angle program) (set (rotations (trace st)))"
    using rotations_processSingleImage [of E _ _ _ _ ?st] by (simp only: st)
  have "set (rotations (trace (snd ?rhs)))
          \<subseteq> insert (arg_angle program) (set (rotations (trace st)))"
    using dir single by (auto simp: trace_emit rotations_append)
  with eq show ?thesis by simp
qed

theorem main_reference_undecodable_witness:
  "arg_reference (example_arguments\<lparr>arg_reference := Some ''ref.png''\<rparr>) = Some ''ref.png''
   \<and> ''ref.png'' \<noteq> []
   \<and> empty (files example_state ''ref.png'')
   \<and> set (rotations (trace (snd (main (example_env [])
            (Some (example_arguments\<lparr>arg_reference := Some ''ref.png''\<rparr>)) example_state))))
       \<subseteq> {90}"
proof -
  have h1: "arg_reference (example_arguments\<lparr>arg_reference := Some ''ref.png''\<rparr>)
              = Some ''ref.png''"
    by simp
  have h2: "''ref.png'' \<noteq> []" by simp
  have h3: "empty (files example_state ''ref.png'')"
    by (simp add: example_state_def empty_def)
  from main_reference_undecodable [OF h1 h2 h3, of "example_env []"]
  have "set (rotations (trace (snd (main (example_env [])
            (Some (example_arguments\<lparr>arg_reference := Some ''ref.png''\<rparr>)) example_state))))
       \<subseteq> insert (arg_angle (example_arguments\<lparr>arg_reference := Some ''ref.png''\<rparr>))
           (set (rotations (trace example_state)))"
    by (rule conjunct2)
  then have "set (rotations (trace (snd (main (example_env [])
            (Some (example_arguments\<lparr>arg_reference := Some ''ref.png''\<rparr>)) example_state))))
       \<subseteq> {90}"
    by (simp add: example_state_def example_arguments_def)
  with h1 h2 h3 show ?thesis by blast
qed

subsection \<open>An explicit angle in directory mode\<close>

text \<open>
  C3. Without a reference image, an explicit angle other than 0 is meant to be the
  angle applied to every file. In directory mode the loop estimates an angle from each
  file it can decode and rotates by that one: with \<^verbatim>\<open>-a 90\<close> on a directory holding
  \<^verbatim>\<open>a.png\<close>, whose estimate is 45 degrees, the file is rotated by 45.
\<close>

theorem directory_explicit_angle_overridden:
  "trace (snd (main (example_env [Entry ''a.png'' False [] 0])
           (Some (example_arguments\<lparr>arg_input := ''in'', arg_output := ''out''\<rparr>))
           example_state))
   = [Imread ''in/a.png'', Imread ''in/a.png'', RotateImage 45,
      Imwrite ''out/a.png'' (Mat 5 5 [1])]"
  by (simp add: model_defs example_defs)

subsection \<open>The zero sentinel\<close>

text \<open>
  C4. \<^verbatim>\<open>processSingleImage\<close> returns false at once, reading and writing nothing,
  when the angle is 0; for any other angle it starts by decoding the input, so it
  has not short-circuited; and when moreover the decoding, the rotation and the
  encoding succeed, it returns true with the rotated image written to the output path.
\<close>

theorem processSingleImage_sentinel:
  "(angle = 0 \<longrightarrow> processSingleImage E i out angle v st = (False, st))
   \<and> (angle \<noteq> 0 \<longrightarrow>
        (\<exists>tr. trace (snd (processSingleImage E i out angle v st)) = trace st @ Imread i # tr))
   \<and> (angle \<noteq> 0 \<and> \<not> empty (files st i) \<and> \<not> empty (rotateImage E (files st i) angle)
        \<and> imwrite_ok E out (rotateImage E (files st i) angle) \<longrightarrow>
        fst (processSingleImage E i out angle v st)
        \<and> files (snd (processSingleImage E i out angle v st)) out
            = rotateImage E (files st i) angle
        \<and> Imwrite out (rotateImage E (files st i) angle)
            \<in> set (trace (snd (processSingleImage E i out angle v st))))"
  by (simp add: processSingleImage_zero processSingleImage_trace processSingleImage_ok)

theorem processSingleImage_sentinel_witness:
  "(360::real) \<noteq> 0
   \<and> \<not> empty (files example_state ''in.png'')
   \<and> \<not> empty (rotateImage (example_env []) (files example_state ''in.png'') 360)
   \<and> imwrite_ok (example_env []) ''out.png''
        (rotateImage (example_env []) (files example_state ''in.png'') 360)
   \<and> fst (processSingleImage (example_env []) ''in.png'' ''out.png'' 360 False example_state)
   \<and> files (snd (processSingleImage (example_env []) ''in.png'' ''out.png'' 360 False
                   example_state)) ''out.png'' = Mat 5 5 [1]
   \<and> processSingleImage (example_env []) ''in.png'' ''out.png'' 0 False example_state
       = (False, example_state)"
proof -
  have h: "(360::real) \<noteq> 0
     \<and> \<not> empty (files example_state ''in.png'')
     \<and> \<not> empty (rotateImage (example_env []) (files example_state ''in.png'') 360)
     \<and> imwrite_ok (example_env []) ''out.png''
          (rotateImage (example_env []) (files example_state ''in.png'') 360)"
    by (simp add: example_defs empty_def rotateImage_def)
  have r: "rotateImage (example_env []) (files example_state ''in.png'') 360 = Mat 5 5 [1]"
    by (simp add: example_defs rotateImage_def)
  show ?thesis
    using h r
      processSingleImage_sentinel [of 360 "example_env []" "''in.png''" "''out.png''" False
        example_state]
      processSingleImage_sentinel [of 0 "example_env []" "''in.png''" "''out.png''" False
        example_state]
    by simp
qed


subsection \<open>The destination canvas\<close>




subsection \<open>The estimate\<close>

text \<open>
  C6. \<^verbatim>\<open>determineRotationAngle\<close> has no failing branch: for every image it returns
  the arithmetic mean of the orientations \<open>atan2 dy dx\<close> of the detected segments,
  each counted once, converted to degrees, and 0 when no segment is detected.
\<close>

theorem determineRotationAngle_mean:
  "determineRotationAngle E src =
     (if detectLines E src = [] then 0
      else sum_list (map orientation (detectLines E src))
             / real (length (detectLines E src)) * (180 / pi))"
  by (cases "detectLines E src") (simp_all add: determineRotationAngle_def accumulate_sum)

theorem determineRotationAngle_mean_witness:
  "detectLines (example_env []) example_image \<noteq> []
   \<and> determineRotationAngle (example_env []) example_image = 45
   \<and> detectLines (example_env []) (Mat 4 2 []) = []
   \<and> determineRotationAngle (example_env []) (Mat 4 2 []) = 0"
proof -
  have l: "detectLines (example_env []) example_image = [(0, 0, 1, 1)]"
    "detectLines (example_env []) (Mat 4 2 []) = []"
    by (simp_all add: example_defs)
  show ?thesis
    using determineRotationAngle_mean [of "example_env []" example_image]
      determineRotationAngle_mean [of "example_env []" "Mat 4 2 []"]
    by (simp add: l orientation_def atan2_def arctan_one)
qed


subsection \<open>Directory traversal\<close>



text \<open>
  C8. An error of the directory cursor is meant to be skipped, the traversal going on
  with the next entry. The error is not thrown, but the cursor that reported it is
  the end iterator. When leaving \<^verbatim>\<open>a.png\<close> fails with error 5 and \<^verbatim>\<open>verbose\<close> is
  not set, the loop ends and the traversal returns true without having visited
  \<^verbatim>\<open>b.png\<close>. With \<^verbatim>\<open>verbose\<close> set, the warning of line 194 dereferences that end
  iterator: the behaviour is undefined from there, and \<^verbatim>\<open>b.png\<close> has not been visited
  either.
\<close>

theorem iteration_error_ends_traversal:
  "processDirectory_iter (example_env []) [] ''in'' ''out'' 90 False False
     [Entry ''a.png'' False [] 5, Entry ''b.png'' False [] 0] example_state
   = (Returns True,
      \<lparr>files = (files example_state)(''out/a.png'' := Mat 5 5 [1]),
       trace = [Imread ''in/a.png'', Imread ''in/a.png'', RotateImage 45,
                Imwrite ''out/a.png'' (Mat 5 5 [1])]\<rparr>)
   \<and> processDirectory_iter (example_env []) [] ''in'' ''out'' 90 False True
       [Entry ''a.png'' False [] 5, Entry ''b.png'' False [] 0] example_state
     = (UndefinedBehaviour,
        \<lparr>files = (files example_state)(''out/a.png'' := Mat 5 5 [1]),
         trace = [Imread ''in/a.png'', OutAngle 45, Imread ''in/a.png'', RotateImage 45,
                  Imwrite ''out/a.png'' (Mat 5 5 [1]), OutSaved ''out/a.png'',
                  OutProcessed ''in/a.png'']\<rparr>)"
  by (simp add: model_defs example_defs)

text \<open>
  C9. When \<^verbatim>\<open>processSingleImage\<close> fails for an image entry of the listing, the
  traversal returns false at once, in the state that this call left plus the message:
  neither the entry's own subdirectory nor any later entry is processed. And a
  traversal that returns false returns the same, with the same state, whatever
  entries follow in the listing.
\<close>

theorem file_failure_aborts:
  "(isImageFile (path_append inDir n)
    \<and> perFileAngle E ref (path_append inDir n) angle v st = (a1, s1)
    \<and> \<not> fst (processSingleImage E (path_append inDir n)
               (path_append outDir (filename (path_append inDir n))) a1 v s1)
    \<longrightarrow> processDirectory_iter E ref inDir outDir angle r v (Entry n d ch ec # rest) st =
          (Returns False, emit (ErrFailedToProcess (path_append inDir n))
                    (snd (processSingleImage E (path_append inDir n)
                           (path_append outDir (filename (path_append inDir n))) a1 v s1))))
   \<and> (processDirectory_iter E ref inDir outDir angle r v xs st = (Returns False, s')
      \<longrightarrow> processDirectory_iter E ref inDir outDir angle r v (xs @ ys) st = (Returns False, s'))"
proof (intro conjI impI)
  assume h: "isImageFile (path_append inDir n)
    \<and> perFileAngle E ref (path_append inDir n) angle v st = (a1, s1)
    \<and> \<not> fst (processSingleImage E (path_append inDir n)
               (path_append outDir (filename (path_append inDir n))) a1 v s1)"
  then have 1: "isImageFile (path_append inDir n)"
    and 2: "perFileAngle E ref (path_append inDir n) angle v st = (a1, s1)"
    and 3: "\<not> fst (processSingleImage E (path_append inDir n)
               (path_append outDir (filename (path_append inDir n))) a1 v s1)"
    by simp_all
  from 1 2 3
  show "processDirectory_iter E ref inDir outDir angle r v (Entry n d ch ec # rest) st =
          (Returns False, emit (ErrFailedToProcess (path_append inDir n))
                    (snd (processSingleImage E (path_append inDir n)
                           (path_append outDir (filename (path_append inDir n))) a1 v s1)))"
    by (rule iter_file_failure)
next
  assume "processDirectory_iter E ref inDir outDir angle r v xs st = (Returns False, s')"
  then show "processDirectory_iter E ref inDir outDir angle r v (xs @ ys) st = (Returns False, s')"
    by (rule iter_failure_final)
qed

theorem file_failure_aborts_witness:
  "isImageFile (path_append ''in'' ''bad.png'')
   \<and> perFileAngle (example_env []) [] (path_append ''in'' ''bad.png'') 90 False example_state
       = (90, emit (ErrReference ''in/bad.png'') (emit (Imread ''in/bad.png'') example_state))
   \<and> \<not> fst (processSingleImage (example_env []) (path_append ''in'' ''bad.png'')
              (path_append ''out'' (filename (path_append ''in'' ''bad.png''))) 90 False
              (emit (ErrReference ''in/bad.png'') (emit (Imread ''in/bad.png'') example_state)))
   \<and> fst (processDirectory_iter (example_env []) [] ''in'' ''out'' 90 True False
              [Entry ''bad.png'' True [Entry ''c.png'' False [] 0] 0,
               Entry ''a.png'' False [] 0] example_state) = Returns False
   \<and> trace (snd (processDirectory_iter (example_env []) [] ''in'' ''out'' 90 True False
              [Entry ''bad.png'' True [Entry ''c.png'' False [] 0] 0,
               Entry ''a.png'' False [] 0] example_state))
       = [Imread ''in/bad.png'', ErrReference ''in/bad.png'', Imread ''in/bad.png'',
          ErrOpenImage ''in/bad.png'', ErrFailedToProcess ''in/bad.png'']"
proof -
  let ?s1 = "emit (ErrReference ''in/bad.png'') (emit (Imread ''in/bad.png'') example_state)"
  have h1: "isImageFile (path_append ''in'' ''bad.png'')"
    by (simp add: model_defs)
  have h2: "perFileAngle (example_env []) [] (path_append ''in'' ''bad.png'') 90 False
              example_state = (90, ?s1)"
    by (simp add: model_defs example_defs)
  have h3: "\<not> fst (processSingleImage (example_env []) (path_append ''in'' ''bad.png'')
              (path_append ''out'' (filename (path_append ''in'' ''bad.png''))) 90 False ?s1)"
    by (simp add: model_defs example_defs)
  have run: "processDirectory_iter (example_env []) [] ''in'' ''out'' 90 True False
              [Entry ''bad.png'' True [Entry ''c.png'' False [] 0] 0,
               Entry ''a.png'' False [] 0] example_state
             = (Returns False, emit (ErrFailedToProcess (path_append ''in'' ''bad.png''))
                    (snd (processSingleImage (example_env []) (path_append ''in'' ''bad.png'')
                       (path_append ''out'' (filename (path_append ''in'' ''bad.png'')))
                       90 False ?s1)))"
    using h1 h2 h3 file_failure_aborts
      [of "''in''" "''bad.png''" "example_env []" "[]" 90 False example_state 90 ?s1
        "''out''" True True "[Entry ''c.png'' False [] 0]" 0 "[Entry ''a.png'' False [] 0]"]
    by blast
  show ?thesis
    unfolding run using h1 h2 h3
    by (simp add: model_defs example_defs)
qed

subsection \<open>The detect flag\<close>

text \<open>
  C10. \<^verbatim>\<open>main\<close> never reads the value of \<^verbatim>\<open>-d/--detect\<close>: two invocations that
  differ only in that flag have the same exit status and leave the same state, files
  and trace included.
\<close>

theorem detect_flag_unused:
  "main E (Some (program\<lparr>arg_detect := b\<rparr>)) st = main E (Some program) st"
  by (simp add: main.simps)

end
